theory Spec2Isabelle
  imports Complex_Main
begin

section \<open>The COI visualisation plugin and the cut-edges panel\<close>

text \<open>
  A shallow embedding of \<^verbatim>\<open>src/components/Charts/CutEdgesSection.js\<close>, which holds two
  modules: the cut-edges chart panel and the plugin that overlays communities of interest
  (COIs) on the map. A JavaScript object used as a dictionary is an association list where
  the code iterates over \<^verbatim>\<open>Object.entries\<close> and a map where it only reads and writes keys.
  The page, the map layer, the console and the global scope are the fields of one explicit
  state, \<open>world\<close>, which every function that touches them takes and returns. An exception
  is the left summand of a sum type.
\<close>

subsection \<open>Errors and property reads\<close>

text \<open>
  The exceptions the module raises by itself: \<open>TypeError\<close> for reading a property of
  \<^verbatim>\<open>undefined\<close>, \<open>ReferenceError\<close> for evaluating an identifier that no scope binds.
\<close>

datatype error = TypeError | ReferenceError string

text \<open>
  \<^verbatim>\<open>let reverseMapping = {}\<close> is an ordinary object, whose prototype is
  \<^verbatim>\<open>Object.prototype\<close>. Reading \<^verbatim>\<open>reverseMapping[key]\<close> therefore has three outcomes: the
  object's own entry, a member inherited from the prototype (a function, or the prototype
  itself for \<^verbatim>\<open>__proto__\<close>; truthy in each case, and without a \<^verbatim>\<open>coi\<close> or \<^verbatim>\<open>cluster\<close>
  property), or \<^verbatim>\<open>undefined\<close>. \<open>objectPrototypeKeys\<close> are the names ECMAScript and its
  Annex B define on \<^verbatim>\<open>Object.prototype\<close>.
\<close>

datatype 'a property = Undefined | Own 'a | Inherited

record rm_entry =
  rm_cluster :: string
  rm_coi :: "string list"

type_synonym reverseMapping = "string \<rightharpoonup> rm_entry"

definition objectPrototypeKeys :: "string list" where
  "objectPrototypeKeys =
     [''constructor'', ''__defineGetter__'', ''__defineSetter__'', ''hasOwnProperty'',
      ''__lookupGetter__'', ''__lookupSetter__'', ''isPrototypeOf'',
      ''propertyIsEnumerable'', ''toString'', ''valueOf'', ''__proto__'',
      ''toLocaleString'']"

definition getProp :: "reverseMapping \<Rightarrow> string \<Rightarrow> rm_entry property" where
  "getProp reverseMapping key =
     (case reverseMapping key of
        Some e \<Rightarrow> Own e
      | None \<Rightarrow> if key \<in> set objectPrototypeKeys then Inherited else Undefined)"

subsection \<open>createReverseMapping\<close>

text \<open>
  \<open>unitMap\<close> is the object the plugin receives, as \<^verbatim>\<open>Object.entries\<close> lists it: cluster
  identifiers with, for each, COI identifiers with their arrays of unit identifiers.
  \<^verbatim>\<open>
  function createReverseMapping(unitMap) {
      let reverseMapping = {};
      for (let [clusterIdentifier, cluster] of Object.entries(unitMap)) {
          for (let [coiid, geoids] of Object.entries(cluster)) {
              for (let geoid of geoids) {
                  let cois = [];
                  if (reverseMapping[geoid]) cois = reverseMapping[geoid]["coi"].concat([coiid]);
                  else cois = [coiid];
                  reverseMapping[geoid] = { "cluster": clusterIdentifier, "coi": cois };
              }
          }
      }
      return reverseMapping;
  }
  \<close>
  \<open>addGeoid\<close> is the body of the innermost loop. With an inherited member the test is
  true, \<^verbatim>\<open>reverseMapping[geoid]["coi"]\<close> is \<^verbatim>\<open>undefined\<close> and \<^verbatim>\<open>.concat\<close> raises.
\<close>

type_synonym unitMap = "(string \<times> (string \<times> string list) list) list"

definition addGeoid ::
  "string \<Rightarrow> string \<Rightarrow> reverseMapping \<Rightarrow> string \<Rightarrow> error + reverseMapping" where
  "addGeoid clusterIdentifier coiid reverseMapping geoid =
     (case getProp reverseMapping geoid of
        Own e \<Rightarrow>
          Inr (reverseMapping(geoid \<mapsto>
                 \<lparr>rm_cluster = clusterIdentifier, rm_coi = rm_coi e @ [coiid]\<rparr>))
      | Inherited \<Rightarrow> Inl TypeError
      | Undefined \<Rightarrow>
          Inr (reverseMapping(geoid \<mapsto>
                 \<lparr>rm_cluster = clusterIdentifier, rm_coi = [coiid]\<rparr>)))"

fun forGeoids ::
  "string \<Rightarrow> string \<Rightarrow> reverseMapping \<Rightarrow> string list \<Rightarrow> error + reverseMapping" where
  "forGeoids clusterIdentifier coiid reverseMapping [] = Inr reverseMapping"
| "forGeoids clusterIdentifier coiid reverseMapping (geoid # geoids) =
     (case addGeoid clusterIdentifier coiid reverseMapping geoid of
        Inl err \<Rightarrow> Inl err
      | Inr reverseMapping' \<Rightarrow> forGeoids clusterIdentifier coiid reverseMapping' geoids)"

fun forCois ::
  "string \<Rightarrow> reverseMapping \<Rightarrow> (string \<times> string list) list \<Rightarrow> error + reverseMapping" where
  "forCois clusterIdentifier reverseMapping [] = Inr reverseMapping"
| "forCois clusterIdentifier reverseMapping ((coiid, geoids) # cluster) =
     (case forGeoids clusterIdentifier coiid reverseMapping geoids of
        Inl err \<Rightarrow> Inl err
      | Inr reverseMapping' \<Rightarrow> forCois clusterIdentifier reverseMapping' cluster)"

fun forClusters :: "reverseMapping \<Rightarrow> unitMap \<Rightarrow> error + reverseMapping" where
  "forClusters reverseMapping [] = Inr reverseMapping"
| "forClusters reverseMapping ((clusterIdentifier, cluster) # unitMap) =
     (case forCois clusterIdentifier reverseMapping cluster of
        Inl err \<Rightarrow> Inl err
      | Inr reverseMapping' \<Rightarrow> forClusters reverseMapping' unitMap)"

definition createReverseMapping :: "unitMap \<Rightarrow> error + reverseMapping" where
  "createReverseMapping unitMap = forClusters Map.empty unitMap"

subsection \<open>Templates and values\<close>

text \<open>
  Values that reach a style, a template or the console, and \<^verbatim>\<open>lit-html\<close> templates as
  trees: an element with its attributes and children, literal text, or a hole filled with a
  value. Whitespace between tags is left out.
\<close>

datatype js_value = JNum rat | JStr string | JArr "js_value list" | JHtml html
and html = Elem string "(string \<times> string) list" "html list" | Text string | Hole js_value

text \<open>
  \<^verbatim>\<open>
  export default function CutEdgesSection(state, uiState, dispatch) {
    let numCutEdges = 0;
    let cutEdges = [];
    return html`
      <section class="toolbar-section">
        <h4> Number of cut edges: </h4>
        <span id="num-cut-edges"> ${numCutEdges} </span>
        <h4> Number of cut edges compared to 50,000 plans under Recom step: </h4>
        <div id="cut_edges_distribution"> <canvas id="cut_edges_distrib_canvas"></canvas> </div>
        <h4> List of cut edges: </h4>
        <span id="cut-edges"> ${cutEdges} </span>
      </section>`;
  }
  \<close>
\<close>

definition CutEdgesSection :: "'s \<Rightarrow> 'u \<Rightarrow> 'd \<Rightarrow> html" where
  "CutEdgesSection state uiState dispatch =
     (let numCutEdges = JNum 0;
          cutEdges = JArr []
      in Elem ''section'' [(''class'', ''toolbar-section'')]
           [Elem ''h4'' [] [Text ''Number of cut edges:''],
            Elem ''span'' [(''id'', ''num-cut-edges'')] [Hole numCutEdges],
            Elem ''h4'' []
              [Text ''Number of cut edges compared to 50,000 plans under Recom step:''],
            Elem ''div'' [(''id'', ''cut_edges_distribution'')]
              [Elem ''canvas'' [(''id'', ''cut_edges_distrib_canvas'')] []],
            Elem ''h4'' [] [Text ''List of cut edges:''],
            Elem ''span'' [(''id'', ''cut-edges'')] [Hole cutEdges]])"

text \<open>What a template shows: the values of its holes, in document order, and the children of
  the element with a given \<^verbatim>\<open>id\<close>.\<close>

fun holes :: "html \<Rightarrow> js_value list" where
  "holes (Elem tag attrs children) = concat (map holes children)"
| "holes (Text t) = []"
| "holes (Hole v) = [v]"

fun childrenOfId :: "string \<Rightarrow> html \<Rightarrow> html list list" where
  "childrenOfId ident (Elem tag attrs children) =
     (if (''id'', ident) \<in> set attrs then [children] else [])
       @ concat (map (childrenOfId ident) children)"
| "childrenOfId ident (Text t) = []"
| "childrenOfId ident (Hole v) = []"

text \<open>The strings a template shows through its holes, in document order.\<close>

fun shownNames :: "html \<Rightarrow> string list" and shownNamesOf :: "js_value \<Rightarrow> string list" where
  "shownNames (Elem tag attrs children) = concat (map shownNames children)"
| "shownNames (Text t) = []"
| "shownNames (Hole v) = shownNamesOf v"
| "shownNamesOf (JNum n) = []"
| "shownNamesOf (JStr s) = [s]"
| "shownNamesOf (JArr vs) = concat (map shownNamesOf vs)"
| "shownNamesOf (JHtml h) = shownNames h"

subsection \<open>The page, the layer and the console\<close>

text \<open>
  An element of the page, with what the module reads and writes of it: its tag, its class
  list, the \<^verbatim>\<open>checked\<close> flag of the control a label wraps (every label carrying the
  module's classes comes from \<^verbatim>\<open>toggle\<close>, which puts an \<^verbatim>\<open>input\<close> inside it), and its inline
  style. The page is the list of its elements in document order, and a node is its index
  there. \<open>layer\<close> is the \<^verbatim>\<open>units\<close> object: the name of its source layer and the opacity
  \<^verbatim>\<open>setOpacity\<close> last gave it; \<open>1 / 3\<close> stands for the result of the division \<^verbatim>\<open>1/3\<close>.
\<close>

record element =
  localName :: string
  classList :: "string list"
  control_checked :: bool
  style :: "string \<rightharpoonup> js_value"

record layer =
  sourceLayer :: string
  opacity :: rat

record status =
  st_cluster :: "string option"
  st_coi :: "string option"
  st_checked :: bool

datatype console_entry = Dir_elements "nat list" | Dir_statuses "status list"

text \<open>
  The state. \<open>globalGeoids\<close> is the value of a global variable \<^verbatim>\<open>geoids\<close>, should another
  script of the page define one (the module itself declares none). \<open>built\<close> is a history
  variable: the argument of every call of \<^verbatim>\<open>createReverseMapping\<close> so far, appended at
  the two call sites.
\<close>

record world =
  elements :: "element list"
  units :: layer
  console :: "console_entry list"
  openedTabs :: "string list"
  origin :: string
  globalGeoids :: "string list option"
  built :: "unitMap list"

text \<open>
  \<^verbatim>\<open>document.getElementsByClassName(names)\<close>, after the DOM standard: \<^verbatim>\<open>names\<close> is split at
  ASCII whitespace; no class gives no element, otherwise the elements carrying every class,
  in document order.
\<close>

definition asciiWhitespace :: "char \<Rightarrow> bool" where
  "asciiWhitespace ch = (ch \<in> set [CHR 0x09, CHR 0x0A, CHR 0x0C, CHR 0x0D, CHR 0x20])"

fun classTokens :: "string \<Rightarrow> string \<Rightarrow> string list" where
  "classTokens cur [] = (if cur = [] then [] else [cur])"
| "classTokens cur (ch # rest) =
     (if asciiWhitespace ch
      then (if cur = [] then classTokens [] rest else cur # classTokens [] rest)
      else classTokens (cur @ [ch]) rest)"

definition getElementsByClassName :: "string \<Rightarrow> element list \<Rightarrow> nat list" where
  "getElementsByClassName classNames els =
     (let classes = classTokens [] classNames
      in if classes = [] then []
         else filter (\<lambda>i. list_all (\<lambda>c. c \<in> set (classList (els ! i))) classes)
                [0..<length els])"

subsection \<open>Checkbox statuses\<close>

text \<open>
  \<^verbatim>\<open>
  function retrieveCheckboxes(cluster=null) {
      let checkboxes = Array.from(document.getElementsByClassName("allvisible-checkbox"));
      if (cluster) {
          checkboxes = checkboxes.concat(Array.from(document.getElementsByClassName(cluster)));
      } else {
          checkboxes = checkboxes.concat(Array.from(document.getElementsByClassName("cluster-checkbox")));
          checkboxes = checkboxes.concat(Array.from(document.getElementsByClassName("coi-checkbox")));
      }
      console.dir(checkboxes);
      return checkboxes.filter((c) => c.localName == "label");
  }
  \<close>
  \<open>None\<close> is \<^verbatim>\<open>null\<close> or \<^verbatim>\<open>undefined\<close>; the empty string is falsy too.
\<close>

definition retrieveCheckboxes :: "string option \<Rightarrow> world \<Rightarrow> nat list \<times> world" where
  "retrieveCheckboxes cluster w =
     (let checkboxes = getElementsByClassName ''allvisible-checkbox'' (elements w);
          everything =
            (checkboxes @ getElementsByClassName ''cluster-checkbox'' (elements w))
              @ getElementsByClassName ''coi-checkbox'' (elements w);
          checkboxes' =
            (case cluster of
               Some c \<Rightarrow>
                 if c \<noteq> [] then checkboxes @ getElementsByClassName c (elements w)
                 else everything
             | None \<Rightarrow> everything);
          w' = w\<lparr>console := console w @ [Dir_elements checkboxes']\<rparr>
      in (filter (\<lambda>c. localName (elements w ! c) = ''label'') checkboxes', w'))"

text \<open>\<^verbatim>\<open>str.replaceAll(pattern, replacement)\<close> for one-character patterns and replacements.\<close>

definition replaceAll :: "char \<Rightarrow> char \<Rightarrow> string \<Rightarrow> string" where
  "replaceAll pattern replacement str =
     map (\<lambda>ch. if ch = pattern then replacement else ch) str"

text \<open>
  \<^verbatim>\<open>
  function getCheckboxStatuses(cluster=null, cois=null) {
      let checkboxes = retrieveCheckboxes(cluster),
          checkboxStatuses = [],
          coiClasses = cois ? cois.map((coi) => coi.replaceAll(" ", "-")) : null;
      for (let checkbox of checkboxes) {
          let coi = checkbox.classList[3],
              hasEnoughClasses = checkbox.classList.length > 3,
              included = coiClasses ? coiClasses.includes(coi) : false,
              skipCondition = hasEnoughClasses && !included;
          if (skipCondition) continue;
          checkboxStatuses.push({ "cluster": cluster, "coi": coi,
                                  "checked": checkbox.control.checked });
      }
      return checkboxStatuses;
  }
  \<close>
  \<open>statusLoop\<close> is the loop, with \<open>checkboxStatuses\<close> as its accumulator; an array is
  truthy even when empty, so \<open>coiClasses\<close> is \<open>None\<close> exactly when \<open>cois\<close> is.
\<close>

fun statusLoop ::
  "string option \<Rightarrow> string list option \<Rightarrow> element list \<Rightarrow> nat list \<Rightarrow> status list
     \<Rightarrow> status list" where
  "statusLoop cluster coiClasses els [] checkboxStatuses = checkboxStatuses"
| "statusLoop cluster coiClasses els (checkbox # rest) checkboxStatuses =
     (let classes = classList (els ! checkbox);
          coi = (if 3 < length classes then Some (classes ! 3) else None);
          hasEnoughClasses = (length classes > 3);
          included =
            (case coiClasses of
               Some cc \<Rightarrow> (case coi of Some c \<Rightarrow> c \<in> set cc | None \<Rightarrow> False)
             | None \<Rightarrow> False);
          skipCondition = (hasEnoughClasses \<and> \<not> included)
      in if skipCondition then statusLoop cluster coiClasses els rest checkboxStatuses
         else statusLoop cluster coiClasses els rest
                (checkboxStatuses @
                   [\<lparr>st_cluster = cluster, st_coi = coi,
                     st_checked = control_checked (els ! checkbox)\<rparr>]))"

definition getCheckboxStatuses ::
  "string option \<Rightarrow> string list option \<Rightarrow> world \<Rightarrow> status list \<times> world" where
  "getCheckboxStatuses cluster cois w =
     (let (checkboxes, w') = retrieveCheckboxes cluster w;
          coiClasses = map_option (map (replaceAll (CHR '' '') (CHR ''-''))) cois
      in (statusLoop cluster coiClasses (elements w') checkboxes [], w'))"

text \<open>
  \<^verbatim>\<open>
  function checkIfAllVisible(cluster, cois) {
      let statuses = getCheckboxStatuses(cluster, cois),
          isChecked = true;
      for (let status of statuses) isChecked = isChecked && status["checked"];
      return isChecked;
  }
  \<close>
\<close>

fun checkedLoop :: "bool \<Rightarrow> status list \<Rightarrow> bool" where
  "checkedLoop isChecked [] = isChecked"
| "checkedLoop isChecked (st # statuses) = checkedLoop (isChecked \<and> st_checked st) statuses"

definition checkIfAllVisible ::
  "string option \<Rightarrow> string list option \<Rightarrow> world \<Rightarrow> bool \<times> world" where
  "checkIfAllVisible cluster cois w =
     (let (statuses, w') = getCheckboxStatuses cluster cois w
      in (checkedLoop True statuses, w'))"

subsection \<open>Tooltips and clicks\<close>

text \<open>
  A feature of the map is its \<^verbatim>\<open>properties\<close> object, as the values (already strings) that
  reading a key gives. A value used as a property key is converted to a string, so that an
  absent identifier reads the key \<^verbatim>\<open>"undefined"\<close>.
\<close>

record feature =
  properties :: "string \<rightharpoonup> string"

definition toPropertyKey :: "string option \<Rightarrow> string" where
  "toPropertyKey v = (case v of Some s \<Rightarrow> s | None \<Rightarrow> ''undefined'')"

text \<open>
  The pair of reads \<^verbatim>\<open>reverseMapping[geoid]["cluster"]\<close>, \<^verbatim>\<open>reverseMapping[geoid]["coi"]\<close>
  that both callbacks make: an error when \<^verbatim>\<open>reverseMapping[geoid]\<close> is \<^verbatim>\<open>undefined\<close>, the two
  fields of an own entry, and twice \<^verbatim>\<open>undefined\<close> (\<open>None\<close>) on an inherited member.
\<close>

definition entryAccess ::
  "reverseMapping \<Rightarrow> string \<Rightarrow> error + (string option \<times> string list option)" where
  "entryAccess reverseMapping geoid =
     (case getProp reverseMapping geoid of
        Undefined \<Rightarrow> Inl TypeError
      | Own e \<Rightarrow> Inr (Some (rm_cluster e), Some (rm_coi e))
      | Inherited \<Rightarrow> Inr (None, None))"

text \<open>
  \<^verbatim>\<open>
  function watchTooltips(unitMap, identifier="GEOID20") {
      let reverseMapping = createReverseMapping(unitMap);
      return (features) => {
          if (features.length === 0) return null;
          let feature = features[0],
              geoid = feature.properties[identifier];
          if (reverseMapping[geoid]) {
              let cluster = reverseMapping[geoid]["cluster"],
                  cois = reverseMapping[geoid]["coi"],
                  isChecked = checkIfAllVisible(cluster, cois);
              if (isChecked) {
                  return html`
                      <div class="tooltip__text__small tooltip__text--column">
                          ${ reverseMapping[geoid]["coi"].map(
                                 (d) => html`<div style="text-align: center;">${d}</div>`) }
                      </div>`;
              } else return null;
          } else return null;
      };
  }
  \<close>
  \<open>tooltipCallback\<close> is the function returned; \<^verbatim>\<open>null\<close> is \<open>None\<close>. On an inherited member
  the test passes, both reads give \<^verbatim>\<open>undefined\<close>, and the template, if reached, calls
  \<^verbatim>\<open>.map\<close> on \<^verbatim>\<open>undefined\<close>.
\<close>

definition tooltipTemplate :: "string list \<Rightarrow> html" where
  "tooltipTemplate cois =
     Elem ''div'' [(''class'', ''tooltip__text__small tooltip__text--column'')]
       [Hole (JArr (map (\<lambda>d. JHtml (Elem ''div'' [(''style'', ''text-align: center;'')]
                                      [Hole (JStr d)])) cois))]"

definition tooltipCallback ::
  "reverseMapping \<Rightarrow> string \<Rightarrow> feature list \<Rightarrow> world \<Rightarrow> (error + html option) \<times> world" where
  "tooltipCallback reverseMapping identifier features w =
     (case features of
        [] \<Rightarrow> (Inr None, w)
      | feature # _ \<Rightarrow>
          (let geoid = toPropertyKey (properties feature identifier)
           in case getProp reverseMapping geoid of
                Undefined \<Rightarrow> (Inr None, w)
              | Own e \<Rightarrow>
                  (let (isChecked, w') =
                         checkIfAllVisible (Some (rm_cluster e)) (Some (rm_coi e)) w
                   in if isChecked then (Inr (Some (tooltipTemplate (rm_coi e))), w')
                      else (Inr None, w'))
              | Inherited \<Rightarrow>
                  (let (isChecked, w') = checkIfAllVisible None None w
                   in if isChecked then (Inl TypeError, w') else (Inr None, w'))))"

definition watchTooltips ::
  "unitMap \<Rightarrow> string \<Rightarrow> world \<Rightarrow>
     (error + (feature list \<Rightarrow> world \<Rightarrow> (error + html option) \<times> world)) \<times> world" where
  "watchTooltips unitMap identifier w =
     (let w' = w\<lparr>built := built w @ [unitMap]\<rparr>
      in case createReverseMapping unitMap of
           Inl err \<Rightarrow> (Inl err, w')
         | Inr reverseMapping \<Rightarrow> (Inr (tooltipCallback reverseMapping identifier), w'))"

text \<open>
  \<^verbatim>\<open>
  function onFeatureClicked(units, unitMap, activePatternMatch, identifier="GEOID20") {
      let map = units.map,
          sourceLayer = units.sourceLayer,
          reverseMapping = createReverseMapping(unitMap);
      map.on("click", sourceLayer, (e) => {
          let _selectedFeatures = map.queryRenderedFeatures(e.point),
              selectedFeatures = _selectedFeatures.map(f => {
                  if (f.properties.source === sourceLayer) return f;
              }),
              feature = selectedFeatures[0],
              geoid = feature.properties[identifier],
              cluster = reverseMapping[geoid]["cluster"],
              cois = reverseMapping[geoid]["coi"],
              origin = window.location.origin;
          if (checkIfAllVisible(cluster, cois)) {
              let tab = window.open(origin + `/coi-info/`);
              tab.coidata = { units: units, unitMap: unitMap };
          }
      });
  }
  \<close>
  \<open>clickCallback\<close> is the handler, applied to the features that
  \<^verbatim>\<open>map.queryRenderedFeatures\<close> returns. The \<^verbatim>\<open>map\<close> over them leaves \<^verbatim>\<open>undefined\<close> (\<open>None\<close>)
  for a feature of another source, and reading \<^verbatim>\<open>.properties\<close> of \<^verbatim>\<open>undefined\<close> raises.
  \<^verbatim>\<open>window.open\<close> is taken to return a window; \<open>openedTabs\<close> keeps the addresses opened.
\<close>

definition clickCallback ::
  "string \<Rightarrow> reverseMapping \<Rightarrow> string \<Rightarrow> feature list \<Rightarrow> world \<Rightarrow> (error + unit) \<times> world" where
  "clickCallback layerName reverseMapping identifier queried w =
     (let selectedFeatures =
            map (\<lambda>f. if properties f ''source'' = Some layerName then Some f else None) queried
      in case selectedFeatures of
           [] \<Rightarrow> (Inl TypeError, w)
         | None # _ \<Rightarrow> (Inl TypeError, w)
         | Some feature # _ \<Rightarrow>
             (let geoid = toPropertyKey (properties feature identifier)
              in case entryAccess reverseMapping geoid of
                   Inl err \<Rightarrow> (Inl err, w)
                 | Inr (cluster, cois) \<Rightarrow>
                     (let (visible, w') = checkIfAllVisible cluster cois w
                      in if visible
                         then (Inr (),
                               w'\<lparr>openedTabs := openedTabs w' @ [origin w' @ ''/coi-info/'']\<rparr>)
                         else (Inr (), w'))))"

definition onFeatureClicked ::
  "unitMap \<Rightarrow> string \<Rightarrow> world \<Rightarrow>
     (error + (feature list \<Rightarrow> world \<Rightarrow> (error + unit) \<times> world)) \<times> world" where
  "onFeatureClicked unitMap identifier w =
     (let layerName = sourceLayer (units w);
          w' = w\<lparr>built := built w @ [unitMap]\<rparr>
      in case createReverseMapping unitMap of
           Inl err \<Rightarrow> (Inl err, w')
         | Inr reverseMapping \<Rightarrow> (Inr (clickCallback layerName reverseMapping identifier), w'))"

subsection \<open>Checkbox callbacks\<close>

definition setStyle :: "nat \<Rightarrow> string \<Rightarrow> js_value \<Rightarrow> world \<Rightarrow> world" where
  "setStyle checkbox property v w =
     w\<lparr>elements := (elements w)
          [checkbox := (elements w ! checkbox)
             \<lparr>style := (style (elements w ! checkbox))(property \<mapsto> v)\<rparr>]\<rparr>"

definition setOpacity :: "rat \<Rightarrow> world \<Rightarrow> world" where
  "setOpacity v w = w\<lparr>units := (units w)\<lparr>opacity := v\<rparr>\<rparr>"

text \<open>
  \<^verbatim>\<open>
  function initialStyles() {
      let allCheckboxes = retrieveCheckboxes().slice(1);
      for (let checkbox of allCheckboxes) {
          checkbox.style["pointer-events"] = "none";
          checkbox.style["opacity"] = 1/2;
      }
  }
  \<close>
\<close>

fun initialStylesLoop :: "nat list \<Rightarrow> world \<Rightarrow> world" where
  "initialStylesLoop [] w = w"
| "initialStylesLoop (checkbox # rest) w =
     initialStylesLoop rest
       (setStyle checkbox ''opacity'' (JNum (1 / 2))
          (setStyle checkbox ''pointer-events'' (JStr ''none'') w))"

definition initialStyles :: "world \<Rightarrow> world" where
  "initialStyles w =
     (let (checkboxes, w') = retrieveCheckboxes None w
      in initialStylesLoop (drop 1 checkboxes) w')"

text \<open>
  \<^verbatim>\<open>
  function displayCOIs(units) {
      return (checked) => {
          let checkboxes = retrieveCheckboxes().slice(1);
          for (let checkbox of checkboxes) {
              checkbox.style["pointer-events"] = checked ? "auto" : "none";
              checkbox.style["opacity"] = checked ? 1 : 1/2;
              units.setOpacity(checked ? 1/3 : 0);
          }
      };
  }
  \<close>
  \<open>displayCOIs\<close> is the callback returned, on the layer of the state; the call of
  \<^verbatim>\<open>setOpacity\<close> is the third statement of the loop body.
\<close>

fun displayLoop :: "bool \<Rightarrow> nat list \<Rightarrow> world \<Rightarrow> world" where
  "displayLoop checked [] w = w"
| "displayLoop checked (checkbox # rest) w =
     displayLoop checked rest
       (setOpacity (if checked then 1 / 3 else 0)
          (setStyle checkbox ''opacity'' (JNum (if checked then 1 else 1 / 2))
             (setStyle checkbox ''pointer-events'' (JStr (if checked then ''auto'' else ''none''))
                w)))"

definition displayCOIs :: "bool \<Rightarrow> world \<Rightarrow> world" where
  "displayCOIs checked w =
     (let (checkboxes, w') = retrieveCheckboxes None w
      in displayLoop checked (drop 1 checkboxes) w')"

text \<open>
  \<^verbatim>\<open>
  function toggleCluster(cluster, units, unitMap) {
      return (checked) => {
          let statuses = getCheckboxStatuses();
          console.dir(statuses);
          opacityStyleExpression(units, geoids, checked);
      };
  }
  \<close>
  Neither the callback, nor \<^verbatim>\<open>toggleCluster\<close>, nor the module binds \<^verbatim>\<open>geoids\<close>, so the
  identifier resolves in the global scope: to the global variable of that name when the
  page has one, and to a \<^verbatim>\<open>ReferenceError\<close> otherwise. \<^verbatim>\<open>opacityStyleExpression\<close> comes from
  \<^verbatim>\<open>../layers/COI\<close> and is a parameter here: what it makes of the layer, given unit
  identifiers and the flag.
\<close>

definition toggleCluster ::
  "(layer \<Rightarrow> string list \<Rightarrow> bool \<Rightarrow> layer) \<Rightarrow> string \<Rightarrow> unitMap \<Rightarrow> bool \<Rightarrow> world
     \<Rightarrow> (error + unit) \<times> world" where
  "toggleCluster opacityStyleExpression cluster unitMap checked w =
     (let (statuses, w1) = getCheckboxStatuses None None w;
          w2 = w1\<lparr>console := console w1 @ [Dir_statuses statuses]\<rparr>
      in case globalGeoids w2 of
           None \<Rightarrow> (Inl (ReferenceError ''geoids''), w2)
         | Some geoids \<Rightarrow>
             (Inr (), w2\<lparr>units := opacityStyleExpression (units w2) geoids checked\<rparr>))"

subsection \<open>The plugin\<close>

text \<open>
  The body of the \<^verbatim>\<open>then\<close> of \<^verbatim>\<open>CoiVisualizationPlugin\<close>, one run of which is a session:
  \<^verbatim>\<open>
  let { clusters, unitMap, patternMatch, units, chosenPatterns } = object,
      displayCallback = displayCOIs(units),
      tooltipCallback = watchTooltips(unitMap),
      tooltipWatcher;
  tab.addSection(createCOICheckbox(displayCallback));
  for (let cluster of clusters) {
      let name = cluster.plan.id,
          clusterToggle = toggle(name, true, toggleCluster(name, units, unitMap),
                                 null, `cluster-checkbox ${name}`);
      tab.addSection(...);
  }
  toolbar.addTab(tab);
  editor.render();
  initialStyles(patternMatch, chosenPatterns);
  tooltipWatcher = new Tooltip(units, tooltipCallback, 0);
  tooltipWatcher.activate();
  onFeatureClicked(units, unitMap);
  \<close>
  The tab, the toolbar and the renderer are outside this module: \<open>rendered\<close> is the page as
  \<^verbatim>\<open>editor.render()\<close> leaves it (their calls are taken to return), and the result holds the
  callbacks the run has registered. An exception ends the run, as a rejected promise.
\<close>

record cluster_plan =
  plan_id :: string
  plan_parts :: "string list"

record callbacks =
  displayCallback :: "bool \<Rightarrow> world \<Rightarrow> world"
  tooltipWatcher :: "feature list \<Rightarrow> world \<Rightarrow> (error + html option) \<times> world"
  clusterToggles :: "(bool \<Rightarrow> world \<Rightarrow> (error + unit) \<times> world) list"
  clickWatcher :: "feature list \<Rightarrow> world \<Rightarrow> (error + unit) \<times> world"

definition CoiVisualizationPlugin ::
  "(layer \<Rightarrow> string list \<Rightarrow> bool \<Rightarrow> layer) \<Rightarrow> cluster_plan list \<Rightarrow> unitMap \<Rightarrow> element list
     \<Rightarrow> world \<Rightarrow> (error + callbacks) \<times> world" where
  "CoiVisualizationPlugin opacityStyleExpression clusters unitMap rendered w =
     (case watchTooltips unitMap ''GEOID20'' w of
        (Inl err, w1) \<Rightarrow> (Inl err, w1)
      | (Inr tooltipCb, w1) \<Rightarrow>
          (let toggles =
                 map (\<lambda>cluster. toggleCluster opacityStyleExpression (plan_id cluster) unitMap)
                   clusters;
               w2 = w1\<lparr>elements := rendered\<rparr>;
               w3 = initialStyles w2
           in case onFeatureClicked unitMap ''GEOID20'' w3 of
                (Inl err, w4) \<Rightarrow> (Inl err, w4)
              | (Inr clickCb, w4) \<Rightarrow>
                  (Inr \<lparr>displayCallback = displayCOIs, tooltipWatcher = tooltipCb,
                        clusterToggles = toggles, clickWatcher = clickCb\<rparr>, w4)))"

subsection \<open>Notions used in the statements\<close>

text \<open>
  The occurrences of unit identifiers in a \<open>unitMap\<close>, in the order the three loops visit
  them, each with its cluster and its COI; the unit identifiers themselves; the
  (cluster, COI) pairs of one unit; and the loop over a flat list of occurrences.
\<close>

definition occurrences :: "unitMap \<Rightarrow> (string \<times> string \<times> string) list" where
  "occurrences unitMap =
     concat (map (\<lambda>(clusterIdentifier, cluster).
       concat (map (\<lambda>(coiid, geoids).
         map (\<lambda>geoid. (clusterIdentifier, coiid, geoid)) geoids) cluster)) unitMap)"

definition geoidsOf :: "unitMap \<Rightarrow> string list" where
  "geoidsOf unitMap = map (snd \<circ> snd) (occurrences unitMap)"

definition occurrencesOf :: "unitMap \<Rightarrow> string \<Rightarrow> (string \<times> string) list" where
  "occurrencesOf unitMap geoid =
     map (\<lambda>x. (fst x, fst (snd x))) (filter (\<lambda>x. snd (snd x) = geoid) (occurrences unitMap))"

fun forOccurrences ::
  "reverseMapping \<Rightarrow> (string \<times> string \<times> string) list \<Rightarrow> error + reverseMapping" where
  "forOccurrences reverseMapping [] = Inr reverseMapping"
| "forOccurrences reverseMapping ((c, k, g) # occs) =
     (case addGeoid c k reverseMapping g of
        Inl err \<Rightarrow> Inl err
      | Inr reverseMapping' \<Rightarrow> forOccurrences reverseMapping' occs)"

text \<open>
  No unit identifier is the name of a member of \<^verbatim>\<open>Object.prototype\<close>; and the invariant of
  the loops, that no such name is an own key.
\<close>

definition plainGeoids :: "unitMap \<Rightarrow> bool" where
  "plainGeoids unitMap =
     list_all (\<lambda>geoid. geoid \<notin> set objectPrototypeKeys) (geoidsOf unitMap)"

definition ownKeysClean :: "reverseMapping \<Rightarrow> bool" where
  "ownKeysClean rm = (\<forall>key \<in> set objectPrototypeKeys. rm key = None)"

text \<open>
  Unit identifiers are census GEOIDs (the identifier of a unit is its property
  \<^verbatim>\<open>GEOID20\<close> by default): strings of decimal digits.
\<close>

definition digitString :: "string \<Rightarrow> bool" where
  "digitString s = list_all (\<lambda>ch. ch \<in> set ''0123456789'') s"

definition geoidUnitMap :: "unitMap \<Rightarrow> bool" where
  "geoidUnitMap unitMap = list_all digitString (geoidsOf unitMap)"

text \<open>
  The status a checkbox contributes, the test that keeps it (it has at most three classes,
  or its fourth class is one of \<open>coiClasses\<close>), and the checkboxes that
  \<open>getCheckboxStatuses\<close> keeps.
\<close>

definition statusOf :: "string option \<Rightarrow> element \<Rightarrow> status" where
  "statusOf cluster el =
     \<lparr>st_cluster = cluster,
      st_coi = (if 3 < length (classList el) then Some (classList el ! 3) else None),
      st_checked = control_checked el\<rparr>"

definition consults :: "string list option \<Rightarrow> element \<Rightarrow> bool" where
  "consults coiClasses el =
     (length (classList el) \<le> 3 \<or>
      (case coiClasses of Some cc \<Rightarrow> classList el ! 3 \<in> set cc | None \<Rightarrow> False))"

definition consultedCheckboxes :: "string option \<Rightarrow> string list option \<Rightarrow> world \<Rightarrow> nat list" where
  "consultedCheckboxes cluster cois w =
     filter (\<lambda>i. consults (map_option (map (replaceAll (CHR '' '') (CHR ''-''))) cois)
                   (elements w ! i))
       (fst (retrieveCheckboxes cluster w))"

text \<open>
  The checkbox of one COI, by the classes \<^verbatim>\<open>listCOIs\<close> gives its toggle:
  \<^verbatim>\<open>`coi-checkbox ${cluster.plan.id} ${adjustedClassName}`\<close>, where \<^verbatim>\<open>adjustedClassName\<close> is
  \<^verbatim>\<open>coi.name.replaceAll(" ", "-")\<close>.
\<close>

definition isCoiCheckbox :: "string \<Rightarrow> string \<Rightarrow> element \<Rightarrow> bool" where
  "isCoiCheckbox cluster coi el =
     (localName el = ''label'' \<and> ''coi-checkbox'' \<in> set (classList el) \<and>
      cluster \<in> set (classList el) \<and>
      replaceAll (CHR '' '') (CHR ''-'') coi \<in> set (classList el))"

text \<open>Node \<open>i\<close> carries the two styles that the callback of \<open>displayCOIs\<close> sets.\<close>

definition styled :: "bool \<Rightarrow> nat \<Rightarrow> world \<Rightarrow> bool" where
  "styled checked i w =
     (i < length (elements w) \<and>
      style (elements w ! i) ''pointer-events'' = Some (JStr (if checked then ''auto'' else ''none'')) \<and>
      style (elements w ! i) ''opacity'' = Some (JNum (if checked then 1 else 1 / 2)))"

subsection \<open>A session with two clusters\<close>

text \<open>
  Two clusters with one COI each, sharing the unit \<open>1001\<close>; the page the plugin renders for
  them (the top-level checkbox, then for each cluster its checkbox, the checkbox of its COI
  and the paragraph of the COI's description), with every box checked but that of
  \<open>River Side\<close>.
\<close>

definition example_unitMap :: unitMap where
  "example_unitMap =
     [(''c1'', [(''River Side'', [''1001'', ''1002''])]),
      (''c2'', [(''Downtown'', [''1001''])])]"

definition example_reverseMapping :: reverseMapping where
  "example_reverseMapping =
     [''1001'' \<mapsto> \<lparr>rm_cluster = ''c2'', rm_coi = [''River Side'', ''Downtown'']\<rparr>,
      ''1002'' \<mapsto> \<lparr>rm_cluster = ''c1'', rm_coi = [''River Side'']\<rparr>]"

definition example_clusters :: "cluster_plan list" where
  "example_clusters =
     [\<lparr>plan_id = ''c1'', plan_parts = [''River Side'']\<rparr>,
      \<lparr>plan_id = ''c2'', plan_parts = [''Downtown'']\<rparr>]"

definition label :: "string list \<Rightarrow> bool \<Rightarrow> element" where
  "label classes c =
     \<lparr>localName = ''label'', classList = classes, control_checked = c, style = Map.empty\<rparr>"

definition description :: "string list \<Rightarrow> element" where
  "description classes =
     \<lparr>localName = ''p'', classList = classes, control_checked = False, style = Map.empty\<rparr>"

definition example_page :: "element list" where
  "example_page =
     [label [''toolbar-checkbox-item'', ''allvisible-checkbox''] True,
      label [''toolbar-checkbox-item'', ''cluster-checkbox'', ''c1''] True,
      label [''toolbar-checkbox-item'', ''coi-checkbox'', ''c1'', ''River-Side''] False,
      description [''c1'', ''River'', ''Side''],
      label [''toolbar-checkbox-item'', ''cluster-checkbox'', ''c2''] True,
      label [''toolbar-checkbox-item'', ''coi-checkbox'', ''c2'', ''Downtown''] True,
      description [''c2'', ''Downtown'']]"

definition example_world :: world where
  "example_world =
     \<lparr>elements = example_page,
      units = \<lparr>sourceLayer = ''blocks'', opacity = 0\<rparr>,
      console = [], openedTabs = [], origin = ''https://districtr.org'',
      globalGeoids = None, built = []\<rparr>"

definition example_world_no_clusters :: world where
  "example_world_no_clusters =
     example_world\<lparr>elements := [label [''toolbar-checkbox-item'', ''allvisible-checkbox''] True]\<rparr>"

definition example_feature :: "string \<Rightarrow> feature" where
  "example_feature geoid = \<lparr>properties = [''GEOID20'' \<mapsto> geoid, ''source'' \<mapsto> ''blocks'']\<rparr>"


definition example_opacityStyleExpression :: "layer \<Rightarrow> string list \<Rightarrow> bool \<Rightarrow> layer" where
  "example_opacityStyleExpression l geoids checked = l\<lparr>opacity := (if checked then 1 / 3 else 0)\<rparr>"

section \<open>Properties\<close>

lemma forOccurrences_append:
  "forOccurrences rm (xs @ ys) =
     (case forOccurrences rm xs of Inl err \<Rightarrow> Inl err | Inr rm' \<Rightarrow> forOccurrences rm' ys)"
  by (induction xs arbitrary: rm) (auto split: sum.splits)

lemma forGeoids_occurrences:
  "forGeoids c k rm gs = forOccurrences rm (map (\<lambda>g. (c, k, g)) gs)"
  by (induction gs arbitrary: rm) (auto split: sum.splits)

lemma forCois_occurrences:
  "forCois c rm cl =
     forOccurrences rm (concat (map (\<lambda>(k, gs). map (\<lambda>g. (c, k, g)) gs) cl))"
  by (induction cl arbitrary: rm)
     (auto simp: forGeoids_occurrences forOccurrences_append split: sum.splits)

lemma forClusters_occurrences:
  "forClusters rm um = forOccurrences rm (occurrences um)"
  by (induction um arbitrary: rm)
     (auto simp: occurrences_def forCois_occurrences forOccurrences_append split: sum.splits)

lemma createReverseMapping_occurrences:
  "createReverseMapping um = forOccurrences Map.empty (occurrences um)"
  by (simp add: createReverseMapping_def forClusters_occurrences)

lemma addGeoid_TypeError:
  "ownKeysClean rm \<Longrightarrow> g \<in> set objectPrototypeKeys \<Longrightarrow> addGeoid c k rm g = Inl TypeError"
  by (auto simp: addGeoid_def getProp_def ownKeysClean_def split: option.splits)

lemma addGeoid_Inr:
  "g \<notin> set objectPrototypeKeys \<Longrightarrow>
   addGeoid c k rm g =
     Inr (rm(g \<mapsto> \<lparr>rm_cluster = c,
                      rm_coi = (case rm g of None \<Rightarrow> [] | Some e \<Rightarrow> rm_coi e) @ [k]\<rparr>))"
  by (auto simp: addGeoid_def getProp_def split: option.splits)

lemma addGeoid_clean:
  "ownKeysClean rm \<Longrightarrow> addGeoid c k rm g = Inr rm' \<Longrightarrow> ownKeysClean rm'"
  by (cases "g \<in> set objectPrototypeKeys")
     (auto simp: addGeoid_TypeError addGeoid_Inr ownKeysClean_def split: if_splits)

lemma addGeoid_error: "addGeoid c k rm g = Inl err \<Longrightarrow> err = TypeError"
  by (auto simp: addGeoid_def split: property.splits)

lemma forOccurrences_error: "forOccurrences rm occs = Inl err \<Longrightarrow> err = TypeError"
  by (induction rm occs rule: forOccurrences.induct) (auto split: sum.splits dest: addGeoid_error)

lemma forOccurrences_Inl_iff:
  "ownKeysClean rm \<Longrightarrow>
   (forOccurrences rm occs = Inl TypeError) =
     (\<exists>x \<in> set occs. snd (snd x) \<in> set objectPrototypeKeys)"
proof (induction rm occs rule: forOccurrences.induct)
  case (1 rm)
  then show ?case by simp
next
  case (2 rm c k g occs)
  show ?case
  proof (cases "g \<in> set objectPrototypeKeys")
    case True
    with 2 show ?thesis by (simp add: addGeoid_TypeError)
  next
    case False
    then obtain rm' where r: "addGeoid c k rm g = Inr rm'"
      by (simp add: addGeoid_Inr)
    with 2 have "ownKeysClean rm'" by (blast intro: addGeoid_clean)
    with 2 r False show ?thesis by simp
  qed
qed

lemma forOccurrences_entry:
  "forOccurrences rm occs = Inr rm' \<Longrightarrow>
   rm' geoid =
     (case filter (\<lambda>x. snd (snd x) = geoid) occs of
        [] \<Rightarrow> rm geoid
      | y # ys \<Rightarrow>
          Some \<lparr>rm_cluster = fst (last (y # ys)),
                rm_coi = (case rm geoid of None \<Rightarrow> [] | Some e \<Rightarrow> rm_coi e)
                         @ map (fst \<circ> snd) (y # ys)\<rparr>)"
proof (induction rm occs arbitrary: rm' rule: forOccurrences.induct)
  case (1 rm)
  then show ?case by simp
next
  case (2 rm c k g occs)
  from "2.prems" obtain rm1 where a: "addGeoid c k rm g = Inr rm1"
    and f: "forOccurrences rm1 occs = Inr rm'"
    by (auto split: sum.splits)
  have ih: "rm' geoid =
     (case filter (\<lambda>x. snd (snd x) = geoid) occs of
        [] \<Rightarrow> rm1 geoid
      | y # ys \<Rightarrow>
          Some \<lparr>rm_cluster = fst (last (y # ys)),
                rm_coi = (case rm1 geoid of None \<Rightarrow> [] | Some e \<Rightarrow> rm_coi e)
                         @ map (fst \<circ> snd) (y # ys)\<rparr>)"
    using "2.IH"[OF a f] .
  have rm1: "rm1 = rm(g \<mapsto> \<lparr>rm_cluster = c,
                      rm_coi = (case rm g of None \<Rightarrow> [] | Some e \<Rightarrow> rm_coi e) @ [k]\<rparr>)"
    using a by (auto simp: addGeoid_def getProp_def split: option.splits if_splits)
  show ?case
  proof (cases "g = geoid")
    case True
    then show ?thesis using ih rm1 by (auto split: list.splits)
  next
    case False
    then show ?thesis using ih rm1 by (auto split: list.splits)
  qed
qed


lemma occurrences_cluster_iff:
  "(c', k, g) \<in> set (concat (map (\<lambda>(k, gs). map (\<lambda>g. (c, k, g)) gs) cl)) \<longleftrightarrow>
     c' = c \<and> (\<exists>gs. (k, gs) \<in> set cl \<and> g \<in> set gs)"
  by (induction cl) auto

lemma occurrences_iff:
  "(c, k, g) \<in> set (occurrences um) \<longleftrightarrow>
     (\<exists>cl gs. (c, cl) \<in> set um \<and> (k, gs) \<in> set cl \<and> g \<in> set gs)"
proof (induction um)
  case Nil
  then show ?case by (simp add: occurrences_def)
next
  case (Cons x um)
  obtain c0 cl0 where x: "x = (c0, cl0)" by (cases x)
  have "occurrences (x # um) =
      concat (map (\<lambda>(k, gs). map (\<lambda>g. (c0, k, g)) gs) cl0) @ occurrences um"
    by (simp add: occurrences_def x)
  then show ?case
    using Cons.IH by (auto simp: x occurrences_cluster_iff)
qed

lemma geoidsOf_iff:
  "g \<in> set (geoidsOf um) \<longleftrightarrow>
     (\<exists>c cl k gs. (c, cl) \<in> set um \<and> (k, gs) \<in> set cl \<and> g \<in> set gs)"
proof -
  have "g \<in> set (geoidsOf um) \<longleftrightarrow> (\<exists>c k. (c, k, g) \<in> set (occurrences um))"
    by (force simp: geoidsOf_def)
  then show ?thesis by (simp add: occurrences_iff) blast
qed

lemma occurrencesOf_iff:
  "(c, k) \<in> set (occurrencesOf um g) \<longleftrightarrow>
     (\<exists>cl gs. (c, cl) \<in> set um \<and> (k, gs) \<in> set cl \<and> g \<in> set gs)"
proof -
  have "(c, k) \<in> set (occurrencesOf um g) \<longleftrightarrow> (c, k, g) \<in> set (occurrences um)"
    by (force simp: occurrencesOf_def)
  then show ?thesis by (simp add: occurrences_iff)
qed

lemma occurrencesOf_Nil_iff: "occurrencesOf um g = [] \<longleftrightarrow> g \<notin> set (geoidsOf um)"
  by (auto simp: occurrencesOf_def geoidsOf_def filter_empty_conv)

lemma occurrences_append: "occurrences (xs @ ys) = occurrences xs @ occurrences ys"
  by (simp add: occurrences_def)

lemma occurrencesOf_append: "occurrencesOf (xs @ ys) g = occurrencesOf xs g @ occurrencesOf ys g"
  by (simp add: occurrencesOf_def occurrences_append)

lemma occurrencesOf_single_fst:
  "x \<in> set (occurrencesOf [(c, cl)] g) \<Longrightarrow> fst x = c"
  by (auto simp: occurrencesOf_def occurrences_def)

lemma createReverseMapping_Inl_iff:
  "createReverseMapping um = Inl TypeError \<longleftrightarrow> \<not> plainGeoids um"
proof -
  have "ownKeysClean Map.empty" by (simp add: ownKeysClean_def)
  then show ?thesis
    unfolding createReverseMapping_occurrences
    by (simp add: forOccurrences_Inl_iff plainGeoids_def geoidsOf_def list_all_iff)
qed

lemma createReverseMapping_cases:
  "createReverseMapping um = Inl TypeError \<or> (\<exists>rm. createReverseMapping um = Inr rm)"
  by (cases "createReverseMapping um")
     (auto simp: createReverseMapping_occurrences dest: forOccurrences_error)

lemma createReverseMapping_Inr:
  "plainGeoids um \<Longrightarrow> \<exists>rm. createReverseMapping um = Inr rm"
  using createReverseMapping_cases[of um] createReverseMapping_Inl_iff[of um] by auto

lemma createReverseMapping_entry:
  assumes "createReverseMapping um = Inr rm"
  shows "rm g =
     (if occurrencesOf um g = [] then None
      else Some \<lparr>rm_cluster = fst (last (occurrencesOf um g)),
                  rm_coi = map snd (occurrencesOf um g)\<rparr>)"
proof -
  have f: "forOccurrences Map.empty (occurrences um) = Inr rm"
    using assms by (simp add: createReverseMapping_occurrences)
  show ?thesis
    using forOccurrences_entry[OF f, of g]
    by (auto simp: occurrencesOf_def last_map comp_def split: list.splits)
qed


subsection \<open>Claims about createReverseMapping\<close>

lemma example_unitMap_plain: "plainGeoids example_unitMap"
  by (simp add: plainGeoids_def geoidsOf_def occurrences_def example_unitMap_def
        objectPrototypeKeys_def)

lemma example_unitMap_reverseMapping:
  "createReverseMapping example_unitMap = Inr example_reverseMapping"
  by (simp add: createReverseMapping_def example_unitMap_def example_reverseMapping_def
        addGeoid_def getProp_def objectPrototypeKeys_def fun_eq_iff)

lemma digitString_plain: "digitString g \<Longrightarrow> g \<notin> set objectPrototypeKeys"
  by (auto simp: digitString_def objectPrototypeKeys_def)

lemma geoidUnitMap_plain: "geoidUnitMap unitMap \<Longrightarrow> plainGeoids unitMap"
  by (auto simp: geoidUnitMap_def plainGeoids_def list_all_iff digitString_plain)

lemma example_unitMap_geoids: "geoidUnitMap example_unitMap"
  by (simp add: geoidUnitMap_def digitString_def geoidsOf_def occurrences_def example_unitMap_def)

text \<open>
  C1. For every \<open>unitMap\<close> mapping cluster identifiers to COI identifiers to arrays of unit
  identifiers, \<open>createReverseMapping\<close> returns an object whose keys are exactly the unit
  identifiers occurring in \<open>unitMap\<close>, and whose entry for each unit \<open>g\<close> has a \<open>coi\<close>
  array containing every COI identifier \<open>k\<close> such that \<open>g\<close> occurs in the array of \<open>k\<close> in
  some cluster \<open>c\<close>. The hypothesis \<open>plainGeoids\<close> holds of every \<open>unitMap\<close> whose unit
  identifiers are GEOIDs (\<open>geoidUnitMap_plain\<close>).
\<close>

theorem createReverseMapping_keys_and_cois:
  assumes "plainGeoids unitMap"
  shows "\<exists>reverseMapping.
           createReverseMapping unitMap = Inr reverseMapping \<and>
           dom reverseMapping = set (geoidsOf unitMap) \<and>
           (\<forall>c cluster k geoids g.
              (c, cluster) \<in> set unitMap \<and> (k, geoids) \<in> set cluster \<and> g \<in> set geoids \<longrightarrow>
              (\<exists>e. reverseMapping g = Some e \<and> k \<in> set (rm_coi e)))"
proof -
  from assms obtain rm where rm: "createReverseMapping unitMap = Inr rm"
    using createReverseMapping_Inr by blast
  have d: "dom rm = set (geoidsOf unitMap)"
    using createReverseMapping_entry[OF rm] occurrencesOf_Nil_iff[of unitMap]
    by (auto simp: dom_def split: if_splits)
  have "\<exists>e. rm g = Some e \<and> k \<in> set (rm_coi e)"
    if "(c, cluster) \<in> set unitMap" "(k, geoids) \<in> set cluster" "g \<in> set geoids"
    for c cluster k geoids g
  proof -
    from that have m: "(c, k) \<in> set (occurrencesOf unitMap g)"
      by (auto simp: occurrencesOf_iff)
    then have "occurrencesOf unitMap g \<noteq> []" by auto
    with m show ?thesis
      using createReverseMapping_entry[OF rm, of g] by force
  qed
  with rm d show ?thesis by blast
qed

theorem createReverseMapping_keys_and_cois_witness:
  "geoidUnitMap example_unitMap \<and> plainGeoids example_unitMap \<and>
   (\<exists>reverseMapping.
      createReverseMapping example_unitMap = Inr reverseMapping \<and>
      dom reverseMapping = {''1001'', ''1002''} \<and>
      (\<exists>e. reverseMapping ''1001'' = Some e \<and> ''Downtown'' \<in> set (rm_coi e)))"
proof -
  obtain rm where rm: "createReverseMapping example_unitMap = Inr rm"
    and d: "dom rm = set (geoidsOf example_unitMap)"
    and k: "\<forall>c cluster k geoids g.
              (c, cluster) \<in> set example_unitMap \<and> (k, geoids) \<in> set cluster \<and> g \<in> set geoids \<longrightarrow>
              (\<exists>e. rm g = Some e \<and> k \<in> set (rm_coi e))"
    using createReverseMapping_keys_and_cois[OF geoidUnitMap_plain[OF example_unitMap_geoids]]
    by blast
  have "(''c2'', [(''Downtown'', [''1001''])]) \<in> set example_unitMap"
    by (simp add: example_unitMap_def)
  with k have "\<exists>e. rm ''1001'' = Some e \<and> ''Downtown'' \<in> set (rm_coi e)"
    by (metis list.set_intros(1))
  moreover have "set (geoidsOf example_unitMap) = {''1001'', ''1002''}"
    by (auto simp: geoidsOf_def occurrences_def example_unitMap_def)
  ultimately show ?thesis
    using rm d example_unitMap_plain example_unitMap_geoids by auto
qed

text \<open>
  Outside the GEOIDs: a unit identifier that names a member of \<^verbatim>\<open>Object.prototype\<close> passes
  the test \<^verbatim>\<open>if (reverseMapping[geoid])\<close> on the plain object, and the function raises.
\<close>

lemma createReverseMapping_raises_on_constructor:
  "createReverseMapping [(''c1'', [(''River Side'', [''constructor''])])] = Inl TypeError"
  by (simp add: createReverseMapping_def addGeoid_def getProp_def objectPrototypeKeys_def)

lemma createReverseMapping_raises_on_proto:
  "createReverseMapping [(''c1'', [(''River Side'', [''1001'', ''__proto__''])])] = Inl TypeError"
  by (simp add: createReverseMapping_def addGeoid_def getProp_def objectPrototypeKeys_def)

text \<open>
  The two reads of an entry are defined exactly on the keys of the mapping, and raise only
  off them.
\<close>

lemma entryAccess_defined_iff:
  "(\<exists>cluster cois. entryAccess reverseMapping geoid = Inr (Some cluster, Some cois))
     \<longleftrightarrow> geoid \<in> dom reverseMapping"
  by (auto simp: entryAccess_def getProp_def split: option.splits)

lemma entryAccess_error:
  "entryAccess reverseMapping geoid = Inl err \<Longrightarrow> geoid \<notin> dom reverseMapping"
  by (auto simp: entryAccess_def getProp_def split: option.splits if_splits)

text \<open>
  C8. If a unit occurs in COIs of more than one cluster, its entry records in \<open>cluster\<close>
  only the last of these clusters in iteration order, each later cluster overwriting the
  earlier one, while its \<open>coi\<close> array accumulates the COI identifiers from all clusters, in
  iteration order; an entry holds exactly one cluster identifier. Here \<open>c\<close> is any cluster
  in which the unit \<open>g\<close> occurs and after which it occurs no more.
\<close>

theorem createReverseMapping_last_cluster:
  assumes "createReverseMapping unitMap = Inr reverseMapping"
    and "unitMap = earlier @ (c, cluster) # later"
    and "g \<in> set (geoidsOf [(c, cluster)])"
    and "g \<notin> set (geoidsOf later)"
  shows "reverseMapping g =
           Some \<lparr>rm_cluster = c, rm_coi = map snd (occurrencesOf unitMap g)\<rparr>"
proof -
  have split: "occurrencesOf unitMap g =
      occurrencesOf earlier g @ occurrencesOf [(c, cluster)] g"
    using assms(2,4) occurrencesOf_append[of earlier "(c, cluster) # later" g]
      occurrencesOf_append[of "[(c, cluster)]" later g]
    by (simp add: occurrencesOf_Nil_iff[symmetric])
  have ne: "occurrencesOf [(c, cluster)] g \<noteq> []"
    using assms(3) by (simp add: occurrencesOf_Nil_iff)
  then have "last (occurrencesOf unitMap g) = last (occurrencesOf [(c, cluster)] g)"
    by (simp add: split)
  moreover have "last (occurrencesOf [(c, cluster)] g) \<in> set (occurrencesOf [(c, cluster)] g)"
    using ne by simp
  ultimately have "fst (last (occurrencesOf unitMap g)) = c"
    by (simp add: occurrencesOf_single_fst)
  moreover have "occurrencesOf unitMap g \<noteq> []" using ne by (simp add: split)
  ultimately show ?thesis
    using createReverseMapping_entry[OF assms(1), of g] by simp
qed

theorem createReverseMapping_last_cluster_witness:
  "createReverseMapping example_unitMap = Inr example_reverseMapping \<and>
   example_unitMap =
     [(''c1'', [(''River Side'', [''1001'', ''1002''])])] @ (''c2'', [(''Downtown'', [''1001''])]) # [] \<and>
   ''1001'' \<in> set (geoidsOf [(''c1'', [(''River Side'', [''1001'', ''1002''])])]) \<and>
   ''1001'' \<in> set (geoidsOf [(''c2'', [(''Downtown'', [''1001''])])]) \<and>
   ''1001'' \<notin> set (geoidsOf []) \<and>
   example_reverseMapping ''1001'' =
     Some \<lparr>rm_cluster = ''c2'', rm_coi = [''River Side'', ''Downtown'']\<rparr>"
proof -
  have u: "example_unitMap =
     [(''c1'', [(''River Side'', [''1001'', ''1002''])])] @ (''c2'', [(''Downtown'', [''1001''])]) # []"
    by (simp add: example_unitMap_def)
  have g1: "''1001'' \<in> set (geoidsOf [(''c1'', [(''River Side'', [''1001'', ''1002''])])])"
    by (simp add: geoidsOf_def occurrences_def)
  have g2: "''1001'' \<in> set (geoidsOf [(''c2'', [(''Downtown'', [''1001''])])])"
    by (simp add: geoidsOf_def occurrences_def)
  have g3: "''1001'' \<notin> set (geoidsOf [])"
    by (simp add: geoidsOf_def occurrences_def)
  have o: "map snd (occurrencesOf example_unitMap ''1001'') = [''River Side'', ''Downtown'']"
    by (simp add: occurrencesOf_def occurrences_def example_unitMap_def)
  have "example_reverseMapping ''1001'' =
     Some \<lparr>rm_cluster = ''c2'', rm_coi = [''River Side'', ''Downtown'']\<rparr>"
    using createReverseMapping_last_cluster[OF example_unitMap_reverseMapping u g2 g3] o
    by simp
  with u g1 g2 g3 example_unitMap_reverseMapping show ?thesis by blast
qed


subsection \<open>Checkbox statuses and their loops\<close>

lemma retrieveCheckboxes_snd:
  "\<exists>entry. snd (retrieveCheckboxes cluster w) = w\<lparr>console := console w @ [entry]\<rparr>"
  unfolding retrieveCheckboxes_def Let_def snd_conv by (rule exI) (rule refl)

lemma retrieveCheckboxes_frame:
  "elements (snd (retrieveCheckboxes cluster w)) = elements w"
  "units (snd (retrieveCheckboxes cluster w)) = units w"
  "built (snd (retrieveCheckboxes cluster w)) = built w"
  "openedTabs (snd (retrieveCheckboxes cluster w)) = openedTabs w"
  "origin (snd (retrieveCheckboxes cluster w)) = origin w"
  "globalGeoids (snd (retrieveCheckboxes cluster w)) = globalGeoids w"
  by (simp_all add: retrieveCheckboxes_def Let_def)

lemma statusLoop_eq:
  "statusLoop cluster coiClasses els checkboxes acc =
     acc @ map (\<lambda>i. statusOf cluster (els ! i))
             (filter (\<lambda>i. consults coiClasses (els ! i)) checkboxes)"
proof (induction checkboxes arbitrary: acc)
  case Nil
  then show ?case by simp
next
  case (Cons c cs)
  show ?case
  proof (cases "consults coiClasses (els ! c)")
    case True
    then show ?thesis
      using Cons.IH
      by (auto simp: consults_def statusOf_def Let_def split: option.splits)
  next
    case False
    then show ?thesis
      using Cons.IH
      by (auto simp: consults_def statusOf_def Let_def split: option.splits)
  qed
qed

lemma getCheckboxStatuses_fst:
  "fst (getCheckboxStatuses cluster cois w) =
     map (\<lambda>i. statusOf cluster (elements w ! i)) (consultedCheckboxes cluster cois w)"
  by (simp add: getCheckboxStatuses_def consultedCheckboxes_def statusLoop_eq
        retrieveCheckboxes_frame split_beta Let_def)

lemma getCheckboxStatuses_snd:
  "snd (getCheckboxStatuses cluster cois w) = snd (retrieveCheckboxes cluster w)"
  by (simp add: getCheckboxStatuses_def split_beta Let_def)

lemma checkedLoop_eq: "checkedLoop isChecked statuses = (isChecked \<and> list_all st_checked statuses)"
  by (induction statuses arbitrary: isChecked) auto

lemma checkIfAllVisible_fst:
  "fst (checkIfAllVisible cluster cois w) =
     list_all st_checked (fst (getCheckboxStatuses cluster cois w))"
  by (simp add: checkIfAllVisible_def split_beta checkedLoop_eq)

lemma checkIfAllVisible_snd:
  "snd (checkIfAllVisible cluster cois w) = snd (retrieveCheckboxes cluster w)"
  by (simp add: checkIfAllVisible_def split_beta getCheckboxStatuses_snd)

lemma checkIfAllVisible_consulted:
  "fst (checkIfAllVisible cluster cois w) =
     list_all (\<lambda>i. control_checked (elements w ! i)) (consultedCheckboxes cluster cois w)"
  by (simp add: checkIfAllVisible_fst getCheckboxStatuses_fst list_all_iff statusOf_def)




text \<open>
  C10. \<open>checkIfAllVisible\<close> returns true if and only if every status returned by
  \<open>getCheckboxStatuses\<close> for the same arguments has \<open>checked\<close> true; in particular it
  returns true when the status list is empty; and when \<open>cois\<close> is \<^verbatim>\<open>null\<close>,
  \<open>getCheckboxStatuses\<close> skips every checkbox having more than three classes and keeps the
  others, so that the checkboxes of individual COIs contribute no status.
\<close>

theorem checkIfAllVisible_iff_all_checked:
  "(fst (checkIfAllVisible cluster cois w) \<longleftrightarrow>
      (\<forall>st \<in> set (fst (getCheckboxStatuses cluster cois w)). st_checked st)) \<and>
   (fst (getCheckboxStatuses cluster cois w) = [] \<longrightarrow> fst (checkIfAllVisible cluster cois w)) \<and>
   fst (getCheckboxStatuses cluster None w) =
     map (\<lambda>i. statusOf cluster (elements w ! i))
       (filter (\<lambda>i. length (classList (elements w ! i)) \<le> 3)
          (fst (retrieveCheckboxes cluster w)))"
proof (intro conjI impI)
  show "fst (checkIfAllVisible cluster cois w) \<longleftrightarrow>
      (\<forall>st \<in> set (fst (getCheckboxStatuses cluster cois w)). st_checked st)"
    by (simp add: checkIfAllVisible_fst list_all_iff)
next
  assume "fst (getCheckboxStatuses cluster cois w) = []"
  then show "fst (checkIfAllVisible cluster cois w)"
    by (simp add: checkIfAllVisible_fst)
next
  show "fst (getCheckboxStatuses cluster None w) =
     map (\<lambda>i. statusOf cluster (elements w ! i))
       (filter (\<lambda>i. length (classList (elements w ! i)) \<le> 3)
          (fst (retrieveCheckboxes cluster w)))"
    by (simp add: getCheckboxStatuses_fst consultedCheckboxes_def consults_def)
qed

theorem checkIfAllVisible_iff_all_checked_witness:
  "fst (getCheckboxStatuses None None (example_world\<lparr>elements := []\<rparr>)) = [] \<and>
   fst (checkIfAllVisible None None (example_world\<lparr>elements := []\<rparr>)) \<and>
   (\<exists>st \<in> set (fst (getCheckboxStatuses (Some ''c1'') (Some [''River Side'']) example_world)).
      \<not> st_checked st) \<and>
   \<not> fst (checkIfAllVisible (Some ''c1'') (Some [''River Side'']) example_world) \<and>
   fst (retrieveCheckboxes (Some ''c1'') example_world) = [0, 1, 2] \<and>
   fst (getCheckboxStatuses (Some ''c1'') None example_world) =
     [\<lparr>st_cluster = Some ''c1'', st_coi = None, st_checked = True\<rparr>,
      \<lparr>st_cluster = Some ''c1'', st_coi = None, st_checked = True\<rparr>]"
proof -
  have e: "fst (getCheckboxStatuses None None (example_world\<lparr>elements := []\<rparr>)) = []"
    by code_simp
  have v: "fst (checkIfAllVisible None None (example_world\<lparr>elements := []\<rparr>))"
    using checkIfAllVisible_iff_all_checked[of None None "example_world\<lparr>elements := []\<rparr>"] e
    by blast
  have n: "\<not> fst (checkIfAllVisible (Some ''c1'') (Some [''River Side'']) example_world)"
    by code_simp
  have x: "\<exists>st \<in> set (fst (getCheckboxStatuses (Some ''c1'') (Some [''River Side'']) example_world)).
      \<not> st_checked st"
    using checkIfAllVisible_iff_all_checked
            [of "Some ''c1''" "Some [''River Side'']" example_world] n
    by blast
  have r: "fst (retrieveCheckboxes (Some ''c1'') example_world) = [0, 1, 2]"
    by code_simp
  have s: "fst (getCheckboxStatuses (Some ''c1'') None example_world) =
     [\<lparr>st_cluster = Some ''c1'', st_coi = None, st_checked = True\<rparr>,
      \<lparr>st_cluster = Some ''c1'', st_coi = None, st_checked = True\<rparr>]"
    by code_simp
  from e v x n r s show ?thesis by blast
qed

subsection \<open>Tooltips\<close>

lemma shownNames_tooltipTemplate: "shownNames (tooltipTemplate cois) = cois"
  by (induction cois) (auto simp: tooltipTemplate_def)

lemma tooltipCallback_own:
  assumes "toPropertyKey (properties feature identifier) = geoid"
    and "reverseMapping geoid = Some e"
  shows "fst (tooltipCallback reverseMapping identifier (feature # rest) w) =
           (if list_all (\<lambda>i. control_checked (elements w ! i))
                 (consultedCheckboxes (Some (rm_cluster e)) (Some (rm_coi e)) w)
            then Inr (Some (tooltipTemplate (rm_coi e))) else Inr None)"
  using assms
  by (simp add: tooltipCallback_def getProp_def split_beta checkIfAllVisible_consulted)

lemma watchTooltips_fst:
  "createReverseMapping unitMap = Inr reverseMapping \<Longrightarrow>
   fst (watchTooltips unitMap identifier w) = Inr (tooltipCallback reverseMapping identifier)"
  by (simp add: watchTooltips_def)

lemma watchTooltips_fst_Inr:
  "fst (watchTooltips unitMap identifier w) = Inr tooltip \<Longrightarrow>
   \<exists>reverseMapping. createReverseMapping unitMap = Inr reverseMapping \<and>
                      tooltip = tooltipCallback reverseMapping identifier"
  by (auto simp: watchTooltips_def Let_def split: sum.splits)

text \<open>
  An error of the tooltip function comes from a unit identifier that is not a key of the
  mapping; an error of the click handler from that, or from a first queried feature that is
  not of the layer.
\<close>

lemma tooltipCallback_error:
  "fst (tooltipCallback reverseMapping identifier features w) = Inl err \<Longrightarrow>
   \<exists>feature rest. features = feature # rest \<and>
     toPropertyKey (properties feature identifier) \<notin> dom reverseMapping"
  by (cases features)
     (auto simp: tooltipCallback_def getProp_def split_beta Let_def
           split: option.splits if_splits)

lemma clickCallback_error:
  "fst (clickCallback layerName reverseMapping identifier queried w) = Inl err \<Longrightarrow>
   (case queried of
      [] \<Rightarrow> True
    | feature # rest \<Rightarrow>
        properties feature ''source'' \<noteq> Some layerName \<or>
        toPropertyKey (properties feature identifier) \<notin> dom reverseMapping)"
  by (cases queried)
     (auto simp: clickCallback_def entryAccess_def getProp_def split_beta Let_def
           split: option.splits if_splits sum.splits)



text \<open>
  What the tooltip function computes for a feature whose unit is a key of the mapping: the
  tooltip of the entry's COI names when every checkbox that \<open>checkIfAllVisible\<close> keeps for
  the entry is checked, and \<^verbatim>\<open>null\<close> otherwise. These are the checkboxes that
  \<open>retrieveCheckboxes\<close> finds for the cluster identifier the entry records, and of them
  the ones with at most three classes and the ones whose fourth class is the class name of
  one of the entry's COIs.
\<close>

theorem watchTooltips_tooltip:
  assumes "createReverseMapping unitMap = Inr reverseMapping"
    and "toPropertyKey (properties feature identifier) = geoid"
    and "reverseMapping geoid = Some e"
  shows "\<exists>tooltip.
           fst (watchTooltips unitMap identifier w0) = Inr tooltip \<and>
           fst (tooltip (feature # rest) w) =
             (if list_all (\<lambda>i. control_checked (elements w ! i))
                   (consultedCheckboxes (Some (rm_cluster e)) (Some (rm_coi e)) w)
              then Inr (Some (tooltipTemplate (rm_coi e))) else Inr None) \<and>
           shownNames (tooltipTemplate (rm_coi e)) = rm_coi e"
proof -
  have "fst (watchTooltips unitMap identifier w0) = Inr (tooltipCallback reverseMapping identifier)"
    using assms(1) by (rule watchTooltips_fst)
  moreover have "fst (tooltipCallback reverseMapping identifier (feature # rest) w) =
             (if list_all (\<lambda>i. control_checked (elements w ! i))
                   (consultedCheckboxes (Some (rm_cluster e)) (Some (rm_coi e)) w)
              then Inr (Some (tooltipTemplate (rm_coi e))) else Inr None)"
    using assms(2,3) by (rule tooltipCallback_own)
  ultimately show ?thesis
    by (simp add: shownNames_tooltipTemplate)
qed

theorem watchTooltips_tooltip_witness:
  "createReverseMapping example_unitMap = Inr example_reverseMapping \<and>
   toPropertyKey (properties (example_feature ''1002'') ''GEOID20'') = ''1002'' \<and>
   example_reverseMapping ''1002'' = Some \<lparr>rm_cluster = ''c1'', rm_coi = [''River Side'']\<rparr> \<and>
   consultedCheckboxes (Some ''c1'') (Some [''River Side'']) example_world = [0, 1, 2] \<and>
   (\<exists>tooltip.
      fst (watchTooltips example_unitMap ''GEOID20'' example_world) = Inr tooltip \<and>
      fst (tooltip [example_feature ''1002''] example_world) = Inr None \<and>
      fst (tooltip [example_feature ''1002'']
             (example_world\<lparr>elements := (elements example_world)
                [2 := label [''toolbar-checkbox-item'', ''coi-checkbox'', ''c1'', ''River-Side''] True]\<rparr>))
        = Inr (Some (tooltipTemplate [''River Side''])))"
proof -
  let ?w = "example_world\<lparr>elements := (elements example_world)
                [2 := label [''toolbar-checkbox-item'', ''coi-checkbox'', ''c1'', ''River-Side''] True]\<rparr>"
  have k: "toPropertyKey (properties (example_feature ''1002'') ''GEOID20'') = ''1002''"
    by (simp add: toPropertyKey_def example_feature_def)
  have en: "example_reverseMapping ''1002'' = Some \<lparr>rm_cluster = ''c1'', rm_coi = [''River Side'']\<rparr>"
    by (simp add: example_reverseMapping_def)
  have c: "consultedCheckboxes (Some ''c1'') (Some [''River Side'']) example_world = [0, 1, 2]"
    by code_simp
  have c': "consultedCheckboxes (Some ''c1'') (Some [''River Side'']) ?w = [0, 1, 2]"
    by code_simp
  have u: "\<not> list_all (\<lambda>i. control_checked (elements example_world ! i)) [0, 1, 2]"
    by code_simp
  have u': "list_all (\<lambda>i. control_checked (elements ?w ! i)) [0, 1, 2]"
    by code_simp
  obtain tooltip where t: "fst (watchTooltips example_unitMap ''GEOID20'' example_world) = Inr tooltip"
    and t1: "fst (tooltip [example_feature ''1002''] example_world) = Inr None"
    using watchTooltips_tooltip[OF example_unitMap_reverseMapping k en,
            of example_world "[]" example_world] c u
    by auto
  have "tooltip = tooltipCallback example_reverseMapping ''GEOID20''"
    using t watchTooltips_fst[OF example_unitMap_reverseMapping, of "''GEOID20''" example_world]
    by simp
  then have t2: "fst (tooltip [example_feature ''1002''] ?w) = Inr (Some (tooltipTemplate [''River Side'']))"
    using k en c' u'
      tooltipCallback_own[of "example_feature ''1002''" "''GEOID20''" "''1002''"
         example_reverseMapping "\<lparr>rm_cluster = ''c1'', rm_coi = [''River Side'']\<rparr>" "[]" ?w]
    by simp
  from k en c t t1 t2 example_unitMap_reverseMapping show ?thesis by blast
qed

text \<open>
  C3, where the code departs from the claim. Unit \<open>1001\<close> belongs to \<open>River Side\<close>
  (cluster \<open>c1\<close>) and to \<open>Downtown\<close> (cluster \<open>c2\<close>), and its entry records the cluster
  \<open>c2\<close> alone. With the checkbox of \<open>River Side\<close> unchecked and every other box checked,
  the tooltip function returned by \<open>watchTooltips\<close> does not return \<^verbatim>\<open>null\<close> for a feature
  of the unit: it returns the tooltip that lists both COIs, \<open>River Side\<close> among them.
\<close>

theorem watchTooltips_shows_unchecked_coi:
  "createReverseMapping example_unitMap = Inr example_reverseMapping \<and>
   fst (watchTooltips example_unitMap ''GEOID20'' example_world)
     = Inr (tooltipCallback example_reverseMapping ''GEOID20'') \<and>
   example_reverseMapping ''1001''
     = Some \<lparr>rm_cluster = ''c2'', rm_coi = [''River Side'', ''Downtown'']\<rparr> \<and>
   isCoiCheckbox ''c1'' ''River Side'' (elements example_world ! 2) \<and>
   \<not> control_checked (elements example_world ! 2) \<and>
   fst (tooltipCallback example_reverseMapping ''GEOID20'' [example_feature ''1001''] example_world)
     = Inr (Some (tooltipTemplate [''River Side'', ''Downtown'']))"
proof -
  have a: "example_reverseMapping ''1001''
     = Some \<lparr>rm_cluster = ''c2'', rm_coi = [''River Side'', ''Downtown'']\<rparr>"
    by (simp add: example_reverseMapping_def)
  have b: "isCoiCheckbox ''c1'' ''River Side'' (elements example_world ! 2)"
    by code_simp
  have c: "\<not> control_checked (elements example_world ! 2)"
    by code_simp
  have d: "fst (tooltipCallback example_reverseMapping ''GEOID20'' [example_feature ''1001''] example_world)
     = Inr (Some (tooltipTemplate [''River Side'', ''Downtown'']))"
    by code_simp
  from a b c d example_unitMap_reverseMapping
    watchTooltips_fst[OF example_unitMap_reverseMapping, of "''GEOID20''" example_world]
  show ?thesis by simp
qed

text \<open>
  C9. For every \<open>unitMap\<close> and \<open>identifier\<close>, the tooltip function returned by
  \<open>watchTooltips\<close> returns \<^verbatim>\<open>null\<close> when called with an empty array of features, and leaves
  the state as it was. (A function is returned whenever no unit identifier is the name of a
  member of \<^verbatim>\<open>Object.prototype\<close>.)
\<close>

theorem watchTooltips_no_features:
  "(plainGeoids unitMap \<longrightarrow> (\<exists>tooltip. fst (watchTooltips unitMap identifier w0) = Inr tooltip)) \<and>
   (\<forall>tooltip. fst (watchTooltips unitMap identifier w0) = Inr tooltip \<longrightarrow>
      (\<forall>w. tooltip [] w = (Inr None, w)))"
proof (intro conjI allI impI)
  assume "plainGeoids unitMap"
  then obtain rm where "createReverseMapping unitMap = Inr rm"
    using createReverseMapping_Inr by blast
  then show "\<exists>tooltip. fst (watchTooltips unitMap identifier w0) = Inr tooltip"
    by (simp add: watchTooltips_fst)
next
  fix tooltip w
  assume "fst (watchTooltips unitMap identifier w0) = Inr tooltip"
  then obtain rm where "tooltip = tooltipCallback rm identifier"
    using watchTooltips_fst_Inr by blast
  then show "tooltip [] w = (Inr None, w)"
    by (simp add: tooltipCallback_def)
qed

theorem watchTooltips_no_features_witness:
  "plainGeoids example_unitMap \<and>
   (\<exists>tooltip. fst (watchTooltips example_unitMap ''GEOID20'' example_world) = Inr tooltip \<and>
      tooltip [] example_world = (Inr None, example_world))"
  using watchTooltips_no_features[of example_unitMap "''GEOID20''" example_world]
    example_unitMap_plain
  by blast



subsection \<open>The cut-edges panel\<close>

text \<open>
  C6. \<open>CutEdgesSection\<close> is a stub: for all arguments it returns a template that displays
  \<open>0\<close> as the number of cut edges and an empty list of cut edges, the same whatever its
  inputs.
\<close>

theorem CutEdgesSection_constant:
  "CutEdgesSection state uiState dispatch = CutEdgesSection state' uiState' dispatch' \<and>
   childrenOfId ''num-cut-edges'' (CutEdgesSection state uiState dispatch) = [[Hole (JNum 0)]] \<and>
   childrenOfId ''cut-edges'' (CutEdgesSection state uiState dispatch) = [[Hole (JArr [])]] \<and>
   holes (CutEdgesSection state uiState dispatch) = [JNum 0, JArr []]"
  by (simp add: CutEdgesSection_def)

theorem CutEdgesSection_constant_witness:
  "CutEdgesSection example_world True (0 :: nat) = CutEdgesSection () ''ui'' example_unitMap \<and>
   childrenOfId ''num-cut-edges'' (CutEdgesSection example_world True (0 :: nat))
     = [[Hole (JNum 0)]] \<and>
   childrenOfId ''cut-edges'' (CutEdgesSection example_world True (0 :: nat))
     = [[Hole (JArr [])]] \<and>
   holes (CutEdgesSection example_world True (0 :: nat)) = [JNum 0, JArr []]"
  by (rule CutEdgesSection_constant)

subsection \<open>Styles and the layer's opacity\<close>

lemma setStyle_frame:
  "units (setStyle c p v w) = units w"
  "built (setStyle c p v w) = built w"
  "console (setStyle c p v w) = console w"
  "length (elements (setStyle c p v w)) = length (elements w)"
  by (simp_all add: setStyle_def)

lemma setOpacity_frame:
  "elements (setOpacity x w) = elements w"
  "built (setOpacity x w) = built w"
  "console (setOpacity x w) = console w"
  "opacity (units (setOpacity x w)) = x"
  by (simp_all add: setOpacity_def)

lemma setStyle_style:
  "i < length (elements w) \<Longrightarrow>
   style (elements (setStyle c p v w) ! i) q =
     (if i = c \<and> q = p then Some v else style (elements w ! i) q)"
  by (cases "i = c") (simp_all add: setStyle_def)

lemma displayLoop_length: "length (elements (displayLoop checked cbs w)) = length (elements w)"
  by (induction cbs arbitrary: w) (simp_all add: setStyle_frame setOpacity_frame)

lemma displayLoop_built: "built (displayLoop checked cbs w) = built w"
  by (induction cbs arbitrary: w) (simp_all add: setStyle_frame setOpacity_frame)

lemma initialStylesLoop_built: "built (initialStylesLoop cbs w) = built w"
  by (induction cbs arbitrary: w) (simp_all add: setStyle_frame)

lemma initialStylesLoop_units: "units (initialStylesLoop cbs w) = units w"
  by (induction cbs arbitrary: w) (simp_all add: setStyle_frame)

lemma displayLoop_opacity:
  "cbs \<noteq> [] \<Longrightarrow>
   opacity (units (displayLoop checked cbs w)) = (if checked then 1 / 3 else 0)"
proof (induction cbs arbitrary: w)
  case Nil
  then show ?case by simp
next
  case (Cons c cbs)
  show ?case
  proof (cases "cbs = []")
    case True
    then show ?thesis by (simp add: setOpacity_frame)
  next
    case False
    then show ?thesis using Cons.IH by simp
  qed
qed

lemma displayLoop_keeps_styled:
  "styled checked i w \<Longrightarrow> styled checked i (displayLoop checked cbs w)"
proof (induction cbs arbitrary: w)
  case Nil
  then show ?case by simp
next
  case (Cons c cbs)
  have "styled checked i
          (setOpacity (if checked then 1 / 3 else 0)
            (setStyle c ''opacity'' (JNum (if checked then 1 else 1 / 2))
              (setStyle c ''pointer-events'' (JStr (if checked then ''auto'' else ''none'')) w)))"
    using Cons.prems
    by (simp add: styled_def setOpacity_frame setStyle_frame setStyle_style)
  then show ?case using Cons.IH by simp
qed

lemma displayLoop_styles:
  "i \<in> set cbs \<Longrightarrow> i < length (elements w) \<Longrightarrow> styled checked i (displayLoop checked cbs w)"
proof (induction cbs arbitrary: w)
  case Nil
  then show ?case by simp
next
  case (Cons c cbs)
  let ?w = "setOpacity (if checked then 1 / 3 else 0)
            (setStyle c ''opacity'' (JNum (if checked then 1 else 1 / 2))
              (setStyle c ''pointer-events'' (JStr (if checked then ''auto'' else ''none'')) w))"
  have len: "i < length (elements ?w)"
    using Cons.prems by (simp add: setOpacity_frame setStyle_frame)
  show ?case
  proof (cases "i = c")
    case True
    then have "styled checked i ?w"
      using Cons.prems
      by (simp add: styled_def setOpacity_frame setStyle_frame setStyle_style)
    then show ?thesis using displayLoop_keeps_styled by simp
  next
    case False
    then have "i \<in> set cbs" using Cons.prems by simp
    then show ?thesis using Cons.IH[OF _ len] by simp
  qed
qed

lemma getElementsByClassName_bound:
  "i \<in> set (getElementsByClassName names els) \<Longrightarrow> i < length els"
  by (auto simp: getElementsByClassName_def Let_def split: if_splits)

lemma retrieveCheckboxes_bound:
  "i \<in> set (fst (retrieveCheckboxes cluster w)) \<Longrightarrow> i < length (elements w)"
  by (auto simp: retrieveCheckboxes_def Let_def split: option.splits if_splits
           dest: getElementsByClassName_bound)

text \<open>
  What the callback of \<open>displayCOIs\<close> does when the page has a checkbox below the top-level
  one: every such checkbox gets the two styles, and the layer the opacity.
\<close>

lemma displayCOIs_with_checkboxes:
  assumes "drop 1 (fst (retrieveCheckboxes None w)) \<noteq> []"
  shows "opacity (units (displayCOIs checked w)) = (if checked then 1 / 3 else 0)"
    and "\<forall>i \<in> set (drop 1 (fst (retrieveCheckboxes None w))). styled checked i (displayCOIs checked w)"
proof -
  show "opacity (units (displayCOIs checked w)) = (if checked then 1 / 3 else 0)"
    using assms by (simp add: displayCOIs_def split_beta displayLoop_opacity)
  show "\<forall>i \<in> set (drop 1 (fst (retrieveCheckboxes None w))). styled checked i (displayCOIs checked w)"
  proof
    fix i
    assume i: "i \<in> set (drop 1 (fst (retrieveCheckboxes None w)))"
    then have "i \<in> set (fst (retrieveCheckboxes None w))"
      by (rule in_set_dropD)
    then have "i < length (elements (snd (retrieveCheckboxes None w)))"
      by (simp add: retrieveCheckboxes_bound retrieveCheckboxes_frame)
    with i show "styled checked i (displayCOIs checked w)"
      by (simp add: displayCOIs_def split_beta displayLoop_styles)
  qed
qed

text \<open>
  C7, where the code departs from the claim. When the page has no checkbox below the
  top-level one, the loop body never runs, and with it the call of \<^verbatim>\<open>setOpacity\<close>: the
  callback of \<open>displayCOIs\<close> leaves the layer and the page as they were.
\<close>

theorem displayCOIs_without_checkboxes:
  assumes "drop 1 (fst (retrieveCheckboxes None w)) = []"
  shows "units (displayCOIs checked w) = units w \<and> elements (displayCOIs checked w) = elements w"
  using assms by (simp add: displayCOIs_def split_beta retrieveCheckboxes_frame)

theorem displayCOIs_without_checkboxes_witness:
  "drop 1 (fst (retrieveCheckboxes None example_world_no_clusters)) = [] \<and>
   units (displayCOIs True example_world_no_clusters) = units example_world_no_clusters \<and>
   opacity (units (displayCOIs True example_world_no_clusters)) = 0 \<and>
   opacity (units (displayCOIs True example_world)) = 1 / 3"
proof -
  have d: "drop 1 (fst (retrieveCheckboxes None example_world_no_clusters)) = []"
    by code_simp
  have o: "opacity (units example_world_no_clusters) = 0"
    by code_simp
  have p: "opacity (units (displayCOIs True example_world)) = 1 / 3"
    by code_simp
  from displayCOIs_without_checkboxes[OF d, of True] d o p show ?thesis by simp
qed

subsection \<open>The cluster toggle\<close>

lemma getCheckboxStatuses_frame:
  "elements (snd (getCheckboxStatuses cluster cois w)) = elements w"
  "units (snd (getCheckboxStatuses cluster cois w)) = units w"
  "built (snd (getCheckboxStatuses cluster cois w)) = built w"
  "globalGeoids (snd (getCheckboxStatuses cluster cois w)) = globalGeoids w"
  by (simp_all add: getCheckboxStatuses_snd retrieveCheckboxes_frame)

lemma checkIfAllVisible_frame:
  "elements (snd (checkIfAllVisible cluster cois w)) = elements w"
  "units (snd (checkIfAllVisible cluster cois w)) = units w"
  "built (snd (checkIfAllVisible cluster cois w)) = built w"
  by (simp_all add: checkIfAllVisible_snd retrieveCheckboxes_frame)

text \<open>
  When the page does define a global \<^verbatim>\<open>geoids\<close>, the callback hands that value to
  \<^verbatim>\<open>opacityStyleExpression\<close>, whatever the cluster.
\<close>

lemma toggleCluster_global:
  "globalGeoids w = Some geoids \<Longrightarrow>
   fst (toggleCluster opacityStyleExpression cluster unitMap checked w) = Inr () \<and>
   units (snd (toggleCluster opacityStyleExpression cluster unitMap checked w)) =
     opacityStyleExpression (units w) geoids checked"
  by (simp add: toggleCluster_def split_beta Let_def getCheckboxStatuses_frame)

text \<open>
  C2, where the code departs from the claim. In a page without a global \<^verbatim>\<open>geoids\<close>, the
  callback that \<open>toggleCluster\<close> produces raises a \<open>ReferenceError\<close> for every cluster and
  either value of \<open>checked\<close>, before \<^verbatim>\<open>opacityStyleExpression\<close> is called: the layer and
  the page stay as they were, and no unit of the cluster is masked.
\<close>

theorem toggleCluster_raises:
  assumes "globalGeoids w = None"
  shows "fst (toggleCluster opacityStyleExpression cluster unitMap checked w)
           = Inl (ReferenceError ''geoids'') \<and>
         units (snd (toggleCluster opacityStyleExpression cluster unitMap checked w)) = units w \<and>
         elements (snd (toggleCluster opacityStyleExpression cluster unitMap checked w)) = elements w"
  using assms by (simp add: toggleCluster_def split_beta Let_def getCheckboxStatuses_frame)

theorem toggleCluster_raises_witness:
  "globalGeoids example_world = None \<and>
   fst (toggleCluster example_opacityStyleExpression ''c1'' example_unitMap False example_world)
     = Inl (ReferenceError ''geoids'') \<and>
   units (snd (toggleCluster example_opacityStyleExpression ''c1'' example_unitMap False example_world))
     = units example_world"
proof -
  have g: "globalGeoids example_world = None"
    by (simp add: example_world_def)
  from toggleCluster_raises[OF g, of example_opacityStyleExpression "''c1''" example_unitMap False] g
  show ?thesis by simp
qed



subsection \<open>Calls of createReverseMapping in a session\<close>

lemma tooltipCallback_built:
  "built (snd (tooltipCallback reverseMapping identifier features w)) = built w"
  by (simp add: tooltipCallback_def split_beta checkIfAllVisible_frame
           split: list.splits property.splits)

lemma clickCallback_built:
  "built (snd (clickCallback layerName reverseMapping identifier queried w)) = built w"
  by (simp add: clickCallback_def split_beta Let_def checkIfAllVisible_frame
           split: list.splits option.splits sum.splits)

lemma displayCOIs_built: "built (displayCOIs checked w) = built w"
  by (simp add: displayCOIs_def split_beta displayLoop_built retrieveCheckboxes_frame)

lemma initialStyles_built: "built (initialStyles w) = built w"
  by (simp add: initialStyles_def split_beta initialStylesLoop_built retrieveCheckboxes_frame)

lemma toggleCluster_built:
  "built (snd (toggleCluster opacityStyleExpression cluster unitMap checked w)) = built w"
  by (simp add: toggleCluster_def split_beta Let_def getCheckboxStatuses_frame
           split: option.splits)

lemma watchTooltips_snd:
  "snd (watchTooltips unitMap identifier w) = w\<lparr>built := built w @ [unitMap]\<rparr>"
  by (simp add: watchTooltips_def Let_def split: sum.splits)

lemma onFeatureClicked_snd:
  "snd (onFeatureClicked unitMap identifier w) = w\<lparr>built := built w @ [unitMap]\<rparr>"
  by (simp add: onFeatureClicked_def Let_def split: sum.splits)

lemma onFeatureClicked_fst:
  "createReverseMapping unitMap = Inr reverseMapping \<Longrightarrow>
   fst (onFeatureClicked unitMap identifier w) =
     Inr (clickCallback (sourceLayer (units w)) reverseMapping identifier)"
  by (simp add: onFeatureClicked_def Let_def)

text \<open>
  C4 (amended). During one session (one run of \<open>CoiVisualizationPlugin\<close> that completes),
  \<open>createReverseMapping\<close> is invoked exactly twice, each time on the session's \<open>unitMap\<close>:
  once by \<open>watchTooltips\<close> and once by \<open>onFeatureClicked\<close>, each building a reverse mapping
  of its own. None of the callbacks the session registers (tooltip, click, display toggle,
  cluster toggles) invokes it again.
\<close>

theorem CoiVisualizationPlugin_builds_twice:
  assumes "plainGeoids unitMap"
  shows "\<exists>cbs w'.
           CoiVisualizationPlugin opacityStyleExpression clusters unitMap rendered w = (Inr cbs, w') \<and>
           built w' = built w @ [unitMap, unitMap] \<and>
           (\<forall>features v. built (snd (tooltipWatcher cbs features v)) = built v) \<and>
           (\<forall>queried v. built (snd (clickWatcher cbs queried v)) = built v) \<and>
           (\<forall>checked v. built (displayCallback cbs checked v) = built v) \<and>
           (\<forall>toggle checked v.
              toggle \<in> set (clusterToggles cbs) \<longrightarrow> built (snd (toggle checked v)) = built v)"
proof -
  from assms obtain rm where rm: "createReverseMapping unitMap = Inr rm"
    using createReverseMapping_Inr by blast
  let ?w1 = "w\<lparr>built := built w @ [unitMap]\<rparr>"
  let ?w3 = "initialStyles (?w1\<lparr>elements := rendered\<rparr>)"
  let ?w4 = "?w3\<lparr>built := built ?w3 @ [unitMap]\<rparr>"
  let ?cbs = "\<lparr>displayCallback = displayCOIs,
               tooltipWatcher = tooltipCallback rm ''GEOID20'',
               clusterToggles =
                 map (\<lambda>cluster. toggleCluster opacityStyleExpression (plan_id cluster) unitMap)
                   clusters,
               clickWatcher = clickCallback (sourceLayer (units ?w3)) rm ''GEOID20''\<rparr>"
  have run: "CoiVisualizationPlugin opacityStyleExpression clusters unitMap rendered w = (Inr ?cbs, ?w4)"
    using rm
    by (simp add: CoiVisualizationPlugin_def watchTooltips_def onFeatureClicked_def Let_def)
  have b: "built ?w4 = built w @ [unitMap, unitMap]"
    by (simp add: initialStyles_built)
  have t: "\<forall>toggle checked v.
              toggle \<in> set (clusterToggles ?cbs) \<longrightarrow> built (snd (toggle checked v)) = built v"
    by (auto simp: toggleCluster_built)
  show ?thesis
    using run b t
    by (intro exI[of _ ?cbs] exI[of _ ?w4])
       (simp add: tooltipCallback_built clickCallback_built displayCOIs_built)
qed

theorem CoiVisualizationPlugin_builds_twice_witness:
  "plainGeoids example_unitMap \<and>
   (\<exists>cbs w'.
      CoiVisualizationPlugin example_opacityStyleExpression example_clusters example_unitMap
        example_page (example_world\<lparr>elements := []\<rparr>) = (Inr cbs, w') \<and>
      built w' = [example_unitMap, example_unitMap] \<and>
      built (snd (tooltipWatcher cbs [example_feature ''1001''] w')) = built w' \<and>
      built (snd (clickWatcher cbs [example_feature ''1001''] w')) = built w')"
proof -
  have b: "built (example_world\<lparr>elements := []\<rparr>) = []"
    by (simp add: example_world_def)
  obtain cbs w' where
    "CoiVisualizationPlugin example_opacityStyleExpression example_clusters example_unitMap
        example_page (example_world\<lparr>elements := []\<rparr>) = (Inr cbs, w')"
    "built w' = built (example_world\<lparr>elements := []\<rparr>) @ [example_unitMap, example_unitMap]"
    "\<forall>features v. built (snd (tooltipWatcher cbs features v)) = built v"
    "\<forall>queried v. built (snd (clickWatcher cbs queried v)) = built v"
    using CoiVisualizationPlugin_builds_twice[OF example_unitMap_plain,
            of example_opacityStyleExpression example_clusters example_page
               "example_world\<lparr>elements := []\<rparr>"]
    by blast
  with b example_unitMap_plain show ?thesis
    by (intro conjI exI[of _ cbs] exI[of _ w']) simp_all
qed

text \<open>
  C4 as stated fails: in the session of the example the history of calls holds the
  \<open>unitMap\<close> twice.
\<close>

theorem CoiVisualizationPlugin_builds_twice_counterexample:
  "built (snd (CoiVisualizationPlugin example_opacityStyleExpression example_clusters
                 example_unitMap example_page (example_world\<lparr>elements := []\<rparr>)))
     = [example_unitMap, example_unitMap] \<and>
   length (built (snd (CoiVisualizationPlugin example_opacityStyleExpression example_clusters
                 example_unitMap example_page (example_world\<lparr>elements := []\<rparr>)))) = 2"
  by code_simp


end
